theory Spec2Isabelle
  imports Main
begin

section \<open>Python exceptions, the module logger and the run state\<close>

text \<open>
  The facades are glue around three libraries (deltalake, polars, boto3). The handlers of
  the source tell exceptions apart by class only: \<^verbatim>\<open>except ValueError\<close>,
  \<^verbatim>\<open>except (BotoCoreError, ClientError)\<close> and \<^verbatim>\<open>except Exception\<close>.
  \<open>NonException\<close> stands for a \<^verbatim>\<open>BaseException\<close> that is not an
  \<^verbatim>\<open>Exception\<close>, which \<^verbatim>\<open>except Exception\<close> does not catch.
\<close>

datatype exn_class =
  ValueError | KeyError | BotoCoreError | ClientError | OtherException | NonException

datatype exn = Exn (cls: exn_class) (str: string)

definition is_Exception :: "exn \<Rightarrow> bool" where
  "is_Exception e = (cls e \<noteq> NonException)"

definition is_ValueError :: "exn \<Rightarrow> bool" where
  "is_ValueError e = (cls e = ValueError)"

definition is_sdk_error :: "exn \<Rightarrow> bool" where
  "is_sdk_error e = (cls e = BotoCoreError \<or> cls e = ClientError)"

datatype level = DEBUG | INFO | WARNING | ERROR

text \<open>
  One library call, as the facade observes it: it returned, or it raised.
\<close>

datatype 'c event = Returned 'c | Raised 'c exn

fun call_of :: "'c event \<Rightarrow> 'c" where
  "call_of (Returned c) = c"
| "call_of (Raised c e) = c"

fun raised_of :: "'c event \<Rightarrow> exn option" where
  "raised_of (Returned c) = None"
| "raised_of (Raised c e) = Some e"

text \<open>
  The state a facade call runs in: the external system (\<open>world\<close>: the files of the lake,
  the buckets of the service), the records the module logger has emitted, and the library
  calls made so far.
\<close>

record ('w, 'c) run =
  world :: 'w
  logs :: "(level \<times> string) list"
  trace :: "'c event list"

type_synonym ('w, 'c, 'a) prog = "('w, 'c) run \<Rightarrow> (exn + 'a) \<times> ('w, 'c) run"

definition logger :: "level \<Rightarrow> string \<Rightarrow> ('w, 'c) run \<Rightarrow> ('w, 'c) run" where
  "logger lv msg st = st\<lparr>logs := logs st @ [(lv, msg)]\<rparr>"

definition emit :: "level \<Rightarrow> string \<Rightarrow> ('w, 'c, unit) prog" where
  "emit lv msg st = (Inr (), logger lv msg st)"

definition return :: "'a \<Rightarrow> ('w, 'c, 'a) prog" where
  "return v st = (Inr v, st)"

definition raise :: "exn \<Rightarrow> ('w, 'c, 'a) prog" where
  "raise e st = (Inl e, st)"

text \<open>Statement sequencing: an exception skips the rest of the block.\<close>

definition and_then :: "('w, 'c, 'a) prog \<Rightarrow> ('a \<Rightarrow> ('w, 'c, 'b) prog) \<Rightarrow> ('w, 'c, 'b) prog" where
  "and_then m f st = (case m st of (Inl e, st') \<Rightarrow> (Inl e, st') | (Inr v, st') \<Rightarrow> f v st')"

text \<open>A call into a library that does I/O: it reads and may change the world.\<close>

definition invoke :: "'c \<Rightarrow> ('w \<Rightarrow> (exn + 'a) \<times> 'w) \<Rightarrow> ('w, 'c, 'a) prog" where
  "invoke c f st =
     (case f (world st) of
        (Inl e, w') \<Rightarrow> (Inl e, st\<lparr>world := w', trace := trace st @ [Raised c e]\<rparr>)
      | (Inr v, w') \<Rightarrow> (Inr v, st\<lparr>world := w', trace := trace st @ [Returned c]\<rparr>))"

text \<open>A call into a library that works in memory only (a conversion, an accessor).\<close>

definition invoke_pure :: "'c \<Rightarrow> exn + 'a \<Rightarrow> ('w, 'c, 'a) prog" where
  "invoke_pure c r st =
     (case r of
        Inl e \<Rightarrow> (Inl e, st\<lparr>trace := trace st @ [Raised c e]\<rparr>)
      | Inr v \<Rightarrow> (Inr v, st\<lparr>trace := trace st @ [Returned c]\<rparr>))"

text \<open>
  \<^verbatim>\<open>try: body  except Exception as e: logger.error(msg(e)); raise\<close>
\<close>

definition try_except_Exception ::
  "('w, 'c, 'a) prog \<Rightarrow> (exn \<Rightarrow> string) \<Rightarrow> ('w, 'c, 'a) prog" where
  "try_except_Exception body msg st =
     (case body st of
        (Inl e, st') \<Rightarrow>
          if is_Exception e then (Inl e, logger ERROR (msg e) st') else (Inl e, st')
      | (Inr v, st') \<Rightarrow> (Inr v, st'))"

definition quoted :: "string \<Rightarrow> string" where
  "quoted s = CHR 0x27 # s @ [CHR 0x27]"

text \<open>What the facade adds to the log and to the trace during one call.\<close>

definition new_logs :: "('w, 'c) run \<Rightarrow> ('w, 'c) run \<Rightarrow> (level \<times> string) list" where
  "new_logs st st' = drop (length (logs st)) (logs st')"

definition new_events :: "('w, 'c) run \<Rightarrow> ('w, 'c) run \<Rightarrow> 'c event list" where
  "new_events st st' = drop (length (trace st)) (trace st')"

definition errors_logged :: "(level \<times> string) list \<Rightarrow> string list" where
  "errors_logged ls = map snd (filter (\<lambda>l. fst l = ERROR) ls)"

section \<open>The Delta-table facade (delta.py)\<close>

type_synonym storage_options = "(string \<times> string) list option"

record merge_options =
  predicate :: string
  source_alias :: string
  target_alias :: string

datatype json =
  JNull | JBool bool | JNum int | JStr string | JArr "json list" | JObj "(string \<times> json) list"

text \<open>
  The libraries the module imports, as parameters: \<open>'t\<close> is \<^verbatim>\<open>pa.Table\<close>,
  \<open>'d\<close> is \<^verbatim>\<open>pl.DataFrame\<close>, \<open>'h\<close> a loaded \<^verbatim>\<open>DeltaTable\<close>,
  \<open>'m\<close> its metadata object and \<open>'g\<close> the \<^verbatim>\<open>TableMerger\<close> that
  \<^verbatim>\<open>write_delta(mode='merge')\<close> returns. \<open>DeltaTable\<close> takes the version to
  load; the module never passes one, which is the library's default \<^verbatim>\<open>None\<close>,
  the latest version. \<open>schema_to_json\<close> is \<^verbatim>\<open>dt.schema().to_json()\<close>.
\<close>

record ('w, 't, 'd, 'h, 'm, 'g) libs =
  is_deltatable :: "string \<Rightarrow> storage_options \<Rightarrow> 'w \<Rightarrow> (exn + bool) \<times> 'w"
  write_deltalake ::
    "string \<Rightarrow> 't \<Rightarrow> string \<Rightarrow> storage_options \<Rightarrow> string list option \<Rightarrow> 'w \<Rightarrow> (exn + unit) \<times> 'w"
  DeltaTable :: "string \<Rightarrow> int option \<Rightarrow> storage_options \<Rightarrow> 'w \<Rightarrow> (exn + 'h) \<times> 'w"
  to_pyarrow_table :: "'h \<Rightarrow> 'w \<Rightarrow> (exn + 't) \<times> 'w"
  metadata :: "'h \<Rightarrow> exn + 'm"
  schema_to_json :: "'h \<Rightarrow> exn + string"
  version :: "'h \<Rightarrow> exn + int"
  json_loads :: "string \<Rightarrow> exn + json"
  to_arrow :: "'d \<Rightarrow> exn + 't"
  from_arrow :: "'t \<Rightarrow> exn + 'd"
  write_delta ::
    "'d \<Rightarrow> string \<Rightarrow> string \<Rightarrow> merge_options \<Rightarrow> storage_options \<Rightarrow> 'w \<Rightarrow> (exn + 'g) \<times> 'w"
  when_matched_update_all :: "'g \<Rightarrow> exn + 'g"
  when_not_matched_insert_all :: "'g \<Rightarrow> exn + 'g"
  when_not_matched_by_source_delete :: "'g \<Rightarrow> exn + 'g"
  execute :: "'g \<Rightarrow> 'w \<Rightarrow> (exn + unit) \<times> 'w"

datatype ('t, 'd, 'h, 'g) call =
  IsDeltatable string storage_options
| WriteDeltalake string 't string storage_options "string list option"
| OpenDeltaTable string "int option" storage_options
| ToPyarrowTable 'h
| Metadata 'h
| SchemaToJson 'h
| Version 'h
| JsonLoads string
| ToArrow 'd
| FromArrow 't
| WriteDelta 'd string string merge_options storage_options
| WhenMatchedUpdateAll 'g
| WhenNotMatchedInsertAll 'g
| WhenNotMatchedBySourceDelete 'g
| Execute 'g

text \<open>What \<^verbatim>\<open>table\<close> can be at run time: the two supported types, or anything else.\<close>

datatype ('t, 'd, 'o) pyobject = ArrowTable 't | PolarsDataFrame 'd | OtherObject 'o

text \<open>The texts of the \<^verbatim>\<open>logger.error\<close> calls of the handlers.\<close>

definition check_failed_msg :: "string \<Rightarrow> exn \<Rightarrow> string" where
  "check_failed_msg path e =
     ''An error occurred while checking if the path '' @ quoted path
     @ '' is a Delta table: '' @ str e"

definition write_invalid_msg :: "exn \<Rightarrow> string" where
  "write_invalid_msg ve = ''Invalid input table: '' @ str ve"

definition write_failed_msg :: "string \<Rightarrow> exn \<Rightarrow> string" where
  "write_failed_msg path e = ''Error writing Delta table to path '' @ quoted path @ '': '' @ str e"

definition read_failed_msg :: "string \<Rightarrow> exn \<Rightarrow> string" where
  "read_failed_msg path e =
     ''Error reading Delta table from path '' @ quoted path @ '': '' @ str e"

definition metadata_failed_msg :: "exn \<Rightarrow> string" where
  "metadata_failed_msg e = ''Error reading Delta table metadata: '' @ str e"

definition upsert_failed_msg :: "string \<Rightarrow> string \<Rightarrow> exn \<Rightarrow> string" where
  "upsert_failed_msg path id_column e =
     ''Upsert operation failed for Delta table at path '' @ quoted path
     @ '' using '' @ quoted id_column @ '' as the unique identifier: '' @ str e"

definition check_if_deltatable ::
  "('w, 't, 'd, 'h, 'm, 'g) libs \<Rightarrow> string \<Rightarrow> storage_options \<Rightarrow>
   ('w, ('t, 'd, 'h, 'g) call, bool) prog" where
  "check_if_deltatable lib path storage_options =
     and_then (emit INFO (''Checking if a Delta table exists at the specified path: '' @ path))
       (\<lambda>_. try_except_Exception
          (and_then (invoke (IsDeltatable path storage_options)
                       (is_deltatable lib path storage_options))
             (\<lambda>is_dt.
                and_then
                  (if is_dt
                   then emit INFO (''The path '' @ quoted path @ '' contains a valid Delta table.'')
                   else emit WARNING (''The path '' @ quoted path
                          @ '' does not contain a Delta table or it does not exist.''))
                  (\<lambda>_. return is_dt)))
          (check_failed_msg path))"

definition write_body ::
  "('w, 't, 'd, 'h, 'm, 'g) libs \<Rightarrow> ('t, 'd, 'o) pyobject \<Rightarrow> string \<Rightarrow> storage_options \<Rightarrow>
   string list option \<Rightarrow> string \<Rightarrow> ('w, ('t, 'd, 'h, 'g) call, unit) prog" where
  "write_body lib table path storage_options partition_by mode =
     and_then (emit INFO (''Writing Delta table to: '' @ path @ '' with mode: '' @ mode))
       (\<lambda>_. and_then
          (case table of
             PolarsDataFrame d \<Rightarrow>
               and_then (emit DEBUG ''Converting Polars DataFrame to Arrow Table.'')
                 (\<lambda>_. invoke_pure (ToArrow d) (to_arrow lib d))
           | ArrowTable t \<Rightarrow> return t
           | OtherObject x \<Rightarrow>
               raise (Exn ValueError ''Input table must be an Arrow Table or a Polars DataFrame.''))
          (\<lambda>t. and_then
             (invoke (WriteDeltalake path t mode storage_options partition_by)
                (write_deltalake lib path t mode storage_options partition_by))
             (\<lambda>_. emit INFO ''Delta table write successful.'')))"

text \<open>
  The two handlers of the write operation, in the source's order:
  \<^verbatim>\<open>except ValueError as ve\<close>, then \<^verbatim>\<open>except Exception as e\<close>.
\<close>

definition write_table_to_deltalake ::
  "('w, 't, 'd, 'h, 'm, 'g) libs \<Rightarrow> ('t, 'd, 'o) pyobject \<Rightarrow> string \<Rightarrow> storage_options \<Rightarrow>
   string list option \<Rightarrow> string \<Rightarrow> ('w, ('t, 'd, 'h, 'g) call, unit) prog" where
  "write_table_to_deltalake lib table path storage_options partition_by mode st =
     (case write_body lib table path storage_options partition_by mode st of
        (Inl e, st') \<Rightarrow>
          if is_ValueError e
          then (Inl e, logger ERROR (write_invalid_msg e) st')
          else if is_Exception e
          then (Inl e, logger ERROR (write_failed_msg path e) st')
          else (Inl e, st')
      | (Inr v, st') \<Rightarrow> (Inr v, st'))"

text \<open>The result of the read operation: an Arrow table, or a Polars dataframe.\<close>

datatype ('t, 'd) table_result = AsArrow 't | AsPolars 'd

definition read_table_in_deltalake ::
  "('w, 't, 'd, 'h, 'm, 'g) libs \<Rightarrow> string \<Rightarrow> storage_options \<Rightarrow> bool \<Rightarrow>
   ('w, ('t, 'd, 'h, 'g) call, ('t, 'd) table_result) prog" where
  "read_table_in_deltalake lib path storage_options to_polars =
     and_then (emit INFO (''Reading Delta table from path: '' @ path))
       (\<lambda>_. try_except_Exception
          (and_then (invoke (OpenDeltaTable path None storage_options)
                       (DeltaTable lib path None storage_options))
             (\<lambda>delta_table.
                and_then (invoke (ToPyarrowTable delta_table) (to_pyarrow_table lib delta_table))
                  (\<lambda>arrow_table.
                     if to_polars
                     then and_then (invoke_pure (FromArrow arrow_table) (from_arrow lib arrow_table))
                            (\<lambda>result.
                               and_then
                                 (emit INFO ''Delta table successfully converted to Polars DataFrame.'')
                                 (\<lambda>_. return (AsPolars result)))
                     else and_then (emit INFO ''Delta table successfully read as Arrow Table.'')
                            (\<lambda>_. return (AsArrow arrow_table)))))
          (read_failed_msg path))"

text \<open>\<^verbatim>\<open>str\<close> of a Python integer, for the f-string of the metadata read.\<close>

fun str_nat :: "nat \<Rightarrow> string" where
  "str_nat n =
     (if n < 10 then [char_of (48 + n)] else str_nat (n div 10) @ [char_of (48 + n mod 10)])"

definition str_int :: "int \<Rightarrow> string" where
  "str_int i = (if i < 0 then CHR ''-'' # str_nat (nat (- i)) else str_nat (nat i))"

text \<open>The values of the dictionary the metadata read returns.\<close>

datatype 'm meta_value = MetadataObject 'm | SchemaStructure json | VersionNumber int

definition read_deltalake_metadata ::
  "('w, 't, 'd, 'h, 'm, 'g) libs \<Rightarrow> string \<Rightarrow> storage_options \<Rightarrow>
   ('w, ('t, 'd, 'h, 'g) call, (string \<times> 'm meta_value) list) prog" where
  "read_deltalake_metadata lib path storage_options =
     try_except_Exception
       (and_then (invoke (OpenDeltaTable path None storage_options)
                    (DeltaTable lib path None storage_options))
          (\<lambda>dt.
             and_then (invoke_pure (Version dt) (version lib dt))
               (\<lambda>v0.
                  and_then (emit INFO (''Loaded Delta table at version '' @ str_int v0))
                    (\<lambda>_.
                       and_then (invoke_pure (Metadata dt) (metadata lib dt))
                         (\<lambda>m.
                            and_then (invoke_pure (SchemaToJson dt) (schema_to_json lib dt))
                              (\<lambda>js.
                                 and_then (invoke_pure (JsonLoads js) (json_loads lib js))
                                   (\<lambda>j.
                                      and_then (invoke_pure (Version dt) (version lib dt))
                                        (\<lambda>v.
                                           return
                                             [(''metadata'', MetadataObject m),
                                              (''schema'', SchemaStructure j),
                                              (''version'', VersionNumber v)]))))))))
       metadata_failed_msg"

definition merge_predicate :: "string \<Rightarrow> merge_options" where
  "merge_predicate id_column =
     \<lparr>predicate = ''source.'' @ id_column @ '' = target.'' @ id_column,
      source_alias = ''source'',
      target_alias = ''target''\<rparr>"

definition upsert_delta_table ::
  "('w, 't, 'd, 'h, 'm, 'g) libs \<Rightarrow> 'd \<Rightarrow> string \<Rightarrow> string \<Rightarrow> storage_options \<Rightarrow>
   ('w, ('t, 'd, 'h, 'g) call, unit) prog" where
  "upsert_delta_table lib df_with_changes path id_column storage_options =
     and_then
       (emit INFO (''Initiating upsert operation on Delta table located at path: '' @ quoted path
                   @ '' using '' @ quoted id_column @ '' as the unique identifier.''))
       (\<lambda>_. try_except_Exception
          (and_then
             (invoke (WriteDelta df_with_changes path ''merge'' (merge_predicate id_column)
                        storage_options)
                (write_delta lib df_with_changes path ''merge'' (merge_predicate id_column)
                   storage_options))
             (\<lambda>g0.
                and_then (invoke_pure (WhenMatchedUpdateAll g0) (when_matched_update_all lib g0))
                  (\<lambda>g1.
                     and_then
                       (invoke_pure (WhenNotMatchedInsertAll g1) (when_not_matched_insert_all lib g1))
                       (\<lambda>g2.
                          and_then
                            (invoke_pure (WhenNotMatchedBySourceDelete g2)
                               (when_not_matched_by_source_delete lib g2))
                            (\<lambda>g3.
                               and_then (invoke (Execute g3) (execute lib g3))
                                 (\<lambda>_.
                                    emit INFO
                                      (''Upsert operation successfully completed for the Delta table at path: ''
                                       @ quoted path @ '' using '' @ quoted id_column
                                       @ '' as the unique identifier.'')))))))
          (upsert_failed_msg path id_column))"

section \<open>The object-storage facade (s3.py)\<close>

text \<open>
  A bucket of a listing is a dictionary; the listing response is a dictionary whose
  \<^verbatim>\<open>Buckets\<close> entry, when present, is the list of buckets.
\<close>

type_synonym bucket = "(string \<times> string) list"

type_synonym response = "(string \<times> bucket list) list"

text \<open>
  The SDK, as a parameter: \<open>'cl\<close> is the client object. \<open>client\<close> is
  \<^verbatim>\<open>boto3.client(service, aws_access_key_id, aws_secret_access_key, endpoint_url, region_name)\<close>.
\<close>

record ('w, 'cl) boto3 =
  client :: "string \<Rightarrow> string \<Rightarrow> string \<Rightarrow> string \<Rightarrow> string \<Rightarrow> 'w \<Rightarrow> (exn + 'cl) \<times> 'w"
  list_buckets :: "'cl \<Rightarrow> 'w \<Rightarrow> (exn + response) \<times> 'w"
  create_bucket :: "'cl \<Rightarrow> string \<Rightarrow> 'w \<Rightarrow> (exn + unit) \<times> 'w"

datatype 'cl s3_call =
  Boto3Client string string string string string
| ListBuckets 'cl
| CreateBucket 'cl string

definition default_region_name :: string where
  "default_region_name = ''us-east-1''"

text \<open>
  \<^verbatim>\<open>try: body  except (BotoCoreError, ClientError) as e: logger.error(msg(e)); raise\<close>
\<close>

definition try_except_sdk_error ::
  "('w, 'c, 'a) prog \<Rightarrow> (exn \<Rightarrow> string) \<Rightarrow> ('w, 'c, 'a) prog" where
  "try_except_sdk_error body msg st =
     (case body st of
        (Inl e, st') \<Rightarrow>
          if is_sdk_error e then (Inl e, logger ERROR (msg e) st') else (Inl e, st')
      | (Inr v, st') \<Rightarrow> (Inr v, st'))"

definition connect_failed_msg :: "exn \<Rightarrow> string" where
  "connect_failed_msg e = ''Failed to connect to S3: '' @ str e"

definition bucket_failed_msg :: "exn \<Rightarrow> string" where
  "bucket_failed_msg e = ''Failed to check/create bucket: '' @ str e"

definition connect_s3 ::
  "('w, 'cl) boto3 \<Rightarrow> string \<Rightarrow> string \<Rightarrow> string \<Rightarrow> string \<Rightarrow> ('w, 'cl s3_call, 'cl) prog" where
  "connect_s3 sdk endpoint_url access_key secret_key region_name =
     try_except_sdk_error
       (and_then (emit INFO ''Initializing S3 client...'')
          (\<lambda>_. and_then
             (invoke (Boto3Client ''s3'' access_key secret_key endpoint_url region_name)
                (client sdk ''s3'' access_key secret_key endpoint_url region_name))
             (\<lambda>s3. and_then (emit INFO ''Successfully connected to S3.'') (\<lambda>_. return s3))))
       connect_failed_msg"

text \<open>
  \<^verbatim>\<open>any(bucket["Name"] == bucket_name for bucket in buckets)\<close>: the generator is
  consumed from the left and stops at the first match; a bucket without the key
  \<^verbatim>\<open>Name\<close> raises KeyError when it is reached.
\<close>

fun any_bucket_named :: "bucket list \<Rightarrow> string \<Rightarrow> exn + bool" where
  "any_bucket_named [] bucket_name = Inr False"
| "any_bucket_named (b # bs) bucket_name =
     (case map_of b ''Name'' of
        None \<Rightarrow> Inl (Exn KeyError (quoted ''Name''))
      | Some n \<Rightarrow> if n = bucket_name then Inr True else any_bucket_named bs bucket_name)"

text \<open>\<^verbatim>\<open>response.get("Buckets", [])\<close>\<close>

definition get_Buckets :: "response \<Rightarrow> bucket list" where
  "get_Buckets resp = (case map_of resp ''Buckets'' of None \<Rightarrow> [] | Some bs \<Rightarrow> bs)"

definition ensure_bucket_exists ::
  "('w, 'cl) boto3 \<Rightarrow> 'cl \<Rightarrow> string \<Rightarrow> ('w, 'cl s3_call, unit) prog" where
  "ensure_bucket_exists sdk s3_client bucket_name =
     try_except_Exception
       (and_then (invoke (ListBuckets s3_client) (list_buckets sdk s3_client))
          (\<lambda>resp.
             and_then
               (case any_bucket_named (get_Buckets resp) bucket_name of
                  Inl e \<Rightarrow> raise e
                | Inr found \<Rightarrow> return found)
               (\<lambda>found.
                  if \<not> found
                  then and_then
                         (invoke (CreateBucket s3_client bucket_name)
                            (create_bucket sdk s3_client bucket_name))
                         (\<lambda>_. emit INFO (''Bucket '' @ quoted bucket_name @ '' created.''))
                  else emit INFO (''Bucket '' @ quoted bucket_name @ '' already exists.''))))
       bucket_failed_msg"

section \<open>Observing a run\<close>


fun is_WriteDeltalake :: "('t, 'd, 'h, 'g) call \<Rightarrow> bool" where
  "is_WriteDeltalake (WriteDeltalake p t m so pb) = True"
| "is_WriteDeltalake c = False"

text \<open>
  The error policy of one facade call that started in \<open>st\<close> and ended with \<open>res\<close>: the
  call only adds to the log and to the trace; every exception a library call raised is the
  result of the facade call, the same exception; and it was logged at error level exactly
  once, with the text \<open>msg\<close>, when the handler catches its class (\<open>caught\<close>), and not at
  all otherwise.
\<close>

definition logged_and_reraised ::
  "(exn \<Rightarrow> bool) \<Rightarrow> (exn \<Rightarrow> string) \<Rightarrow> ('w, 'c) run \<Rightarrow> (exn + 'a) \<times> ('w, 'c) run \<Rightarrow> bool" where
  "logged_and_reraised caught msg st res =
     (\<exists>ls evs. logs (snd res) = logs st @ ls \<and> trace (snd res) = trace st @ evs \<and>
        (\<forall>ev \<in> set evs. \<forall>e. raised_of ev = Some e \<longrightarrow>
           fst res = Inl e \<and> errors_logged ls = (if caught e then [msg e] else [])))"

section \<open>Libraries to run the facades against\<close>

text \<open>Libraries in which every call raises \<open>e\<close>.\<close>

definition failing_libs :: "exn \<Rightarrow> ('w, 't, 'd, 'h, 'm, 'g) libs" where
  "failing_libs e =
     \<lparr>is_deltatable = (\<lambda>path so w. (Inl e, w)),
      write_deltalake = (\<lambda>path t mode so pb w. (Inl e, w)),
      DeltaTable = (\<lambda>path v so w. (Inl e, w)),
      to_pyarrow_table = (\<lambda>h w. (Inl e, w)),
      metadata = (\<lambda>h. Inl e),
      schema_to_json = (\<lambda>h. Inl e),
      version = (\<lambda>h. Inl e),
      json_loads = (\<lambda>s. Inl e),
      to_arrow = (\<lambda>d. Inl e),
      from_arrow = (\<lambda>t. Inl e),
      write_delta = (\<lambda>d path mode mo so w. (Inl e, w)),
      when_matched_update_all = (\<lambda>g. Inl e),
      when_not_matched_insert_all = (\<lambda>g. Inl e),
      when_not_matched_by_source_delete = (\<lambda>g. Inl e),
      execute = (\<lambda>g w. (Inl e, w))\<rparr>"

definition failing_boto3 :: "exn \<Rightarrow> ('w, 'cl) boto3" where
  "failing_boto3 e =
     \<lparr>client = (\<lambda>service access_key secret_key endpoint_url region_name w. (Inl e, w)),
      list_buckets = (\<lambda>cl w. (Inl e, w)),
      create_bucket = (\<lambda>cl n w. (Inl e, w))\<rparr>"

text \<open>
  A table in memory: a row is a dictionary from column names to values, a table a list of
  rows, and a lake holds the current snapshot of the table at each location.
\<close>

type_synonym 'v row = "(string \<times> 'v) list"

type_synonym 'v lake = "string \<Rightarrow> 'v row list option"

text \<open>
  Modelled from the spec: the table store of the deltalake and polars libraries, which are
  not part of the repository. Writing in overwrite mode replaces the snapshot, append mode
  adds rows to it, any other mode is a failure of the library; a table is loaded at its
  latest version, the only one this store keeps; the two table representations convert
  into each other without loss. Every other call raises \<open>e\<close>.
\<close>

definition memory_lake ::
  "exn \<Rightarrow> ('v lake, 'v row list, 'v row list, 'v row list, 'm, 'g) libs" where
  "memory_lake e =
     (failing_libs e)
       \<lparr>is_deltatable := (\<lambda>path so w. (Inr (w path \<noteq> None), w)),
        write_deltalake := (\<lambda>path t mode so pb w.
           if mode = ''overwrite'' then (Inr (), w(path \<mapsto> t))
           else if mode = ''append''
           then (Inr (), w(path \<mapsto> (case w path of None \<Rightarrow> [] | Some old \<Rightarrow> old) @ t))
           else (Inl (Exn ValueError ''Invalid mode''), w)),
        DeltaTable := (\<lambda>path v so w.
           case v of
             Some n \<Rightarrow> (Inl e, w)
           | None \<Rightarrow>
               (case w path of
                  None \<Rightarrow> (Inl (Exn OtherException ''TableNotFoundError''), w)
                | Some rows \<Rightarrow> (Inr rows, w))),
        to_pyarrow_table := (\<lambda>h w. (Inr h, w)),
        to_arrow := Inr,
        from_arrow := Inr\<rparr>"

text \<open>
  Modelled from the spec: the merge builder (\<^verbatim>\<open>TableMerger\<close>) of the deltalake
  library, which is not part of the repository: the target location, the change set, the
  merge options and the clauses chosen so far.
\<close>

record 'v merger =
  merge_path :: string
  source :: "'v row list"
  merge_opts :: merge_options
  matched_update_all :: bool
  not_matched_insert_all :: bool
  not_matched_by_source_delete :: bool

text \<open>
  Modelled from the spec: a column name that the merge engine of the deltalake library (not
  part of the repository) can read in the text of a predicate: a plain identifier, made of
  letters, digits and underscores and not starting with a digit. The predicate is SQL text,
  so a name with a space or any other character is not read as one column.
\<close>

definition digit_char :: "char \<Rightarrow> bool" where
  "digit_char ch = (let n = (of_char ch :: nat) in 48 \<le> n \<and> n \<le> 57)"

definition identifier_char :: "char \<Rightarrow> bool" where
  "identifier_char ch =
     (let n = (of_char ch :: nat)
      in (97 \<le> n \<and> n \<le> 122) \<or> (65 \<le> n \<and> n \<le> 90) \<or> (48 \<le> n \<and> n \<le> 57) \<or> n = 95)"

definition is_identifier :: "string \<Rightarrow> bool" where
  "is_identifier c =
     (case c of [] \<Rightarrow> False | ch # cs \<Rightarrow> \<not> digit_char ch \<and> list_all identifier_char c)"

text \<open>
  Modelled from the spec: how the merge engine of the deltalake library (not part of the
  repository) reads a merge predicate: as an equality comparison on one column between the
  source alias and the target alias, \<^verbatim>\<open><source>.<c> = <target>.<c>\<close>, where the
  column is a plain identifier. The result is that column, or \<open>None\<close> for a predicate
  that is not of this form, which the engine refuses.
\<close>

definition equality_column :: "merge_options \<Rightarrow> string option" where
  "equality_column mo =
     (let sa = source_alias mo @ ''.'';
          ta = '' = '' @ target_alias mo @ ''.'';
          c = take ((length (predicate mo) - length sa - length ta) div 2)
                (drop (length sa) (predicate mo))
      in if predicate mo = sa @ c @ ta @ c \<and> is_identifier c then Some c else None)"

text \<open>
  Modelled from the spec: the spec speaks of the incoming row that overwrites a matched
  row, one row. A change set is ambiguous for a target when some target row is matched by
  more than one of its rows; the merge engine of the deltalake library (not part of the
  repository) refuses to update from such a change set.
\<close>

definition ambiguous :: "'v row list \<Rightarrow> string \<Rightarrow> 'v row list \<Rightarrow> bool" where
  "ambiguous df c target =
     list_ex (\<lambda>t. 1 < length (filter (\<lambda>s. map_of s c = map_of t c) df)) target"

text \<open>
  Modelled from the spec: what the merge engine of the deltalake library (not part of the
  repository) does with the rows, clause by clause. A change-set row matches a target row
  when both have the same value in column \<open>c\<close>. A matched target row: with the clause
  \<^verbatim>\<open>when_matched_update_all\<close> the incoming row that matches it stands in its place,
  without the clause it stays. A target row that no incoming row matches: with the clause
  \<^verbatim>\<open>when_not_matched_by_source_delete\<close> it is deleted, without the clause it stays.
  An incoming row that matches no target row: with the clause
  \<^verbatim>\<open>when_not_matched_insert_all\<close> it is inserted, without the clause it is dropped.
\<close>

definition merge_rows :: "'v merger \<Rightarrow> string \<Rightarrow> 'v row list \<Rightarrow> 'v row list" where
  "merge_rows g c target =
     concat (map (\<lambda>t. case filter (\<lambda>s. map_of s c = map_of t c) (source g) of
                        [] \<Rightarrow> if not_matched_by_source_delete g then [] else [t]
                      | s # ss \<Rightarrow> if matched_update_all g then [s] else [t]) target)
     @ (if not_matched_insert_all g
        then filter (\<lambda>s. \<not> list_ex (\<lambda>t. map_of s c = map_of t c) target) (source g)
        else [])"

text \<open>
  Modelled from the spec: \<^verbatim>\<open>DataFrame.write_delta(..., mode='merge')\<close> of the polars
  library (not part of the repository): on an existing table it returns a merge builder
  with no clause yet and writes nothing.
\<close>

definition lake_write_delta ::
  "'v row list \<Rightarrow> string \<Rightarrow> string \<Rightarrow> merge_options \<Rightarrow> storage_options \<Rightarrow> 'v lake \<Rightarrow>
   (exn + 'v merger) \<times> 'v lake" where
  "lake_write_delta df path mode mo so w =
     (if mode \<noteq> ''merge'' then (Inl (Exn ValueError ''Invalid mode''), w)
      else case w path of
             None \<Rightarrow> (Inl (Exn OtherException ''TableNotFoundError''), w)
           | Some target \<Rightarrow>
               (Inr \<lparr>merge_path = path, source = df, merge_opts = mo,
                     matched_update_all = False, not_matched_insert_all = False,
                     not_matched_by_source_delete = False\<rparr>, w))"

text \<open>
  Modelled from the spec: \<^verbatim>\<open>TableMerger.execute()\<close> of the deltalake library (not
  part of the repository): one transaction that replaces the snapshot of the target by the
  merged rows, or fails and leaves the lake as it was. It fails when the table is not
  there, when the predicate is not an equality on one column, when a row lacks that column,
  and when it is to update from a change set that is ambiguous for the target.
\<close>

definition lake_execute :: "'v merger \<Rightarrow> 'v lake \<Rightarrow> (exn + unit) \<times> 'v lake" where
  "lake_execute g w =
     (case w (merge_path g) of
        None \<Rightarrow> (Inl (Exn OtherException ''TableNotFoundError''), w)
      | Some target \<Rightarrow>
          (case equality_column (merge_opts g) of
             None \<Rightarrow> (Inl (Exn OtherException ''Unsupported predicate''), w)
           | Some c \<Rightarrow>
               if \<not> list_all (\<lambda>r. map_of r c \<noteq> None) (source g @ target)
               then (Inl (Exn OtherException ''Column not found''), w)
               else if matched_update_all g \<and> ambiguous (source g) c target
               then (Inl (Exn OtherException ''Multiple source rows matched one target row''), w)
               else (Inr (), w(merge_path g \<mapsto> merge_rows g c target))))"

text \<open>
  Modelled from the spec: a library whose merge calls are those of the merge engine above;
  each \<^verbatim>\<open>when_...\<close> call adds its clause to the builder.
\<close>

definition with_merge_engine ::
  "('v lake, 't, 'v row list, 'h, 'm, 'v merger) libs \<Rightarrow>
   ('v lake, 't, 'v row list, 'h, 'm, 'v merger) libs" where
  "with_merge_engine lib =
     lib\<lparr>write_delta := lake_write_delta,
         when_matched_update_all := (\<lambda>g. Inr (g\<lparr>matched_update_all := True\<rparr>)),
         when_not_matched_insert_all := (\<lambda>g. Inr (g\<lparr>not_matched_insert_all := True\<rparr>)),
         when_not_matched_by_source_delete :=
           (\<lambda>g. Inr (g\<lparr>not_matched_by_source_delete := True\<rparr>)),
         execute := lake_execute\<rparr>"

text \<open>
  The table the spec promises after an upsert of the change set \<open>df\<close> into \<open>target\<close>,
  with rows matched by the column \<open>c\<close>: in the place of each target row stands the
  incoming row that matches it (none: the row is deleted), followed by the incoming rows
  that match no target row. It is meant for a change set that is not ambiguous for the
  target, where at most one incoming row matches a target row.
\<close>

definition replaced_world :: "'v row list \<Rightarrow> string \<Rightarrow> 'v row list \<Rightarrow> 'v row list" where
  "replaced_world df c target =
     concat (map (\<lambda>t. filter (\<lambda>s. map_of s c = map_of t c) df) target)
     @ filter (\<lambda>s. \<forall>t \<in> set target. map_of s c \<noteq> map_of t c) df"

text \<open>
  What ensure-bucket-exists needs from the storage service behind a client: the listing
  succeeds, changes nothing, and reports exactly the buckets the service holds
  (\<open>names\<close>), each under its key \<^verbatim>\<open>Name\<close>; and creating a bucket that the service does
  not hold succeeds and adds that one bucket.
\<close>

definition bucket_service :: "('w, 'cl) boto3 \<Rightarrow> 'cl \<Rightarrow> ('w \<Rightarrow> string list) \<Rightarrow> bool" where
  "bucket_service sdk cl names =
     ((\<forall>w. \<exists>resp bs. list_buckets sdk cl w = (Inr resp, w) \<and> map_of resp ''Buckets'' = Some bs
                    \<and> map (\<lambda>b. map_of b ''Name'') bs = map Some (names w))
    \<and> (\<forall>w n. n \<notin> set (names w) \<longrightarrow>
          (\<exists>w'. create_bucket sdk cl n w = (Inr (), w')
               \<and> (\<forall>m. count_list (names w') m
                        = count_list (names w) m + (if m = n then 1 else 0)))))"

text \<open>
  Modelled from the spec: an S3-compatible service in memory (the service and its SDK are
  not part of the repository). The world is the list of bucket names; constructing a
  client touches nothing; creating a bucket that exists is refused.
\<close>

definition memory_s3 :: "(string list, unit) boto3" where
  "memory_s3 =
     \<lparr>client = (\<lambda>service access_key secret_key endpoint_url region_name w. (Inr (), w)),
      list_buckets = (\<lambda>cl w. (Inr [(''Buckets'', map (\<lambda>n. [(''Name'', n)]) w)], w)),
      create_bucket = (\<lambda>cl n w.
         if n \<in> set w then (Inl (Exn ClientError ''BucketAlreadyOwnedByYou''), w)
         else (Inr (), w @ [n]))\<rparr>"

text \<open>Concrete inputs to run the facades on.\<close>

definition run_on :: "'w \<Rightarrow> ('w, 'c) run" where
  "run_on w = \<lparr>world = w, logs = [], trace = []\<rparr>"

definition unavailable :: exn where
  "unavailable = Exn OtherException ''unavailable''"

definition example_lake ::
  "(int lake, int row list, int row list, int row list, string, int merger) libs" where
  "example_lake = memory_lake unavailable"

definition scenario_target :: "int row list" where
  "scenario_target =
     [[(''id'', 1), (''v'', 10)], [(''id'', 2), (''v'', 20)], [(''id'', 3), (''v'', 30)]]"

definition scenario_changes :: "int row list" where
  "scenario_changes =
     [[(''id'', 2), (''v'', 21)], [(''id'', 3), (''v'', 30)], [(''id'', 4), (''v'', 40)]]"

definition scenario_duplicates :: "int row list" where
  "scenario_duplicates =
     [[(''id'', 2), (''v'', 21)], [(''id'', 2), (''v'', 22)], [(''id'', 4), (''v'', 40)]]"

definition spaced_rows :: "int row list" where
  "spaced_rows = [[(''my id'', 1), (''v'', 10)]]"

definition broken_lake ::
  "(int lake, int row list, int row list, int row list, string, int merger) libs" where
  "broken_lake = failing_libs unavailable"

definition described_lake ::
  "(int lake, int row list, int row list, int row list, string, int merger) libs" where
  "described_lake =
     example_lake
       \<lparr>metadata := (\<lambda>h. Inr ''orders''),
        schema_to_json := (\<lambda>h. Inr ''{}''),
        version := (\<lambda>h. Inr 0),
        json_loads := (\<lambda>s. if s = ''{}'' then Inr (JObj []) else Inl (Exn ValueError s))\<rparr>"

definition access_denied :: exn where
  "access_denied = Exn ClientError ''AccessDenied''"

definition invalid_endpoint :: exn where
  "invalid_endpoint = Exn ValueError ''Invalid endpoint: nowhere''"

definition broken_s3 :: "exn \<Rightarrow> (string list, unit) boto3" where
  "broken_s3 e = failing_boto3 e"


section \<open>Lemmas\<close>

lemmas prog_defs = and_then_def emit_def return_def raise_def invoke_def invoke_pure_def
  try_except_Exception_def try_except_sdk_error_def logger_def

subsection \<open>The error policy, operation by operation\<close>

lemma check_logged_and_reraised:
  "logged_and_reraised is_Exception (check_failed_msg path) st
     (check_if_deltatable lib path so st)"
  unfolding logged_and_reraised_def check_if_deltatable_def prog_defs errors_logged_def
  by (auto split: sum.splits prod.splits)

lemma write_logged_and_reraised:
  "logged_and_reraised is_Exception
     (\<lambda>e. if is_ValueError e then write_invalid_msg e else write_failed_msg path e) st
     (write_table_to_deltalake lib table path so pb mode st)"
  unfolding logged_and_reraised_def write_table_to_deltalake_def write_body_def prog_defs
    errors_logged_def
  by (cases table) (auto split: sum.splits prod.splits simp: is_ValueError_def is_Exception_def)

lemma read_logged_and_reraised:
  "logged_and_reraised is_Exception (read_failed_msg path) st
     (read_table_in_deltalake lib path so to_polars st)"
  unfolding logged_and_reraised_def read_table_in_deltalake_def prog_defs errors_logged_def
  by (auto split: sum.splits prod.splits)

lemma metadata_logged_and_reraised:
  "logged_and_reraised is_Exception metadata_failed_msg st
     (read_deltalake_metadata lib path so st)"
  unfolding logged_and_reraised_def read_deltalake_metadata_def prog_defs errors_logged_def
  by (auto split: sum.splits prod.splits)

lemma upsert_logged_and_reraised:
  "logged_and_reraised is_Exception (upsert_failed_msg path id_column) st
     (upsert_delta_table lib df path id_column so st)"
  unfolding logged_and_reraised_def upsert_delta_table_def prog_defs errors_logged_def
  by (auto split: sum.splits prod.splits)

lemma connect_logged_and_reraised:
  "logged_and_reraised is_sdk_error connect_failed_msg st
     (connect_s3 sdk endpoint_url access_key secret_key region_name st)"
  unfolding logged_and_reraised_def connect_s3_def prog_defs errors_logged_def
  by (auto split: sum.splits prod.splits)

lemma ensure_logged_and_reraised:
  "logged_and_reraised is_Exception bucket_failed_msg st
     (ensure_bucket_exists sdk cl bucket_name st)"
  unfolding logged_and_reraised_def ensure_bucket_exists_def prog_defs errors_logged_def
  by (auto split: sum.splits prod.splits)

subsection \<open>The merge engine\<close>

lemma equality_column_merge_predicate:
  "equality_column (merge_predicate c) = (if is_identifier c then Some c else None)"
  by (simp add: equality_column_def merge_predicate_def Let_def)

lemma at_most_one_row:
  "length xs \<le> 1 \<Longrightarrow> (case xs of [] \<Rightarrow> [] | x # ys \<Rightarrow> [x]) = xs"
  by (cases xs) auto

lemma unambiguous_match:
  assumes "\<not> ambiguous df c target" and "t \<in> set target"
  shows "length (filter (\<lambda>s. map_of s c = map_of t c) df) \<le> 1"
  using assms by (auto simp: ambiguous_def list_ex_iff not_less)

lemma merge_rows_all_clauses:
  assumes "matched_update_all g" and "not_matched_insert_all g"
    and "not_matched_by_source_delete g" and "\<not> ambiguous (source g) c target"
  shows "merge_rows g c target = replaced_world (source g) c target"
proof -
  have "map (\<lambda>t. case filter (\<lambda>s. map_of s c = map_of t c) (source g) of
                    [] \<Rightarrow> if not_matched_by_source_delete g then [] else [t]
                  | s # ss \<Rightarrow> if matched_update_all g then [s] else [t]) target
      = map (\<lambda>t. filter (\<lambda>s. map_of s c = map_of t c) (source g)) target"
  proof (rule map_cong [OF refl])
    fix t
    assume "t \<in> set target"
    from unambiguous_match [OF assms(4) this] assms(1,3)
    show "(case filter (\<lambda>s. map_of s c = map_of t c) (source g) of
             [] \<Rightarrow> if not_matched_by_source_delete g then [] else [t]
           | s # ss \<Rightarrow> if matched_update_all g then [s] else [t])
        = filter (\<lambda>s. map_of s c = map_of t c) (source g)"
      by (cases "filter (\<lambda>s. map_of s c = map_of t c) (source g)") auto
  qed
  then have "concat (map (\<lambda>t. case filter (\<lambda>s. map_of s c = map_of t c) (source g) of
                    [] \<Rightarrow> if not_matched_by_source_delete g then [] else [t]
                  | s # ss \<Rightarrow> if matched_update_all g then [s] else [t]) target)
      = concat (map (\<lambda>t. filter (\<lambda>s. map_of s c = map_of t c) (source g)) target)"
    by (rule arg_cong)
  moreover have "(if not_matched_insert_all g
        then filter (\<lambda>s. \<not> list_ex (\<lambda>t. map_of s c = map_of t c) target) (source g)
        else [])
      = filter (\<lambda>s. \<forall>t \<in> set target. map_of s c \<noteq> map_of t c) (source g)"
    using assms(2) by (simp add: list_ex_iff)
  ultimately show ?thesis
    unfolding merge_rows_def replaced_world_def by (rule arg_cong2)
qed

lemma the_incoming_row:
  assumes "\<not> ambiguous df c target" and "t \<in> set target" and "s \<in> set df"
    and "map_of s c = map_of t c"
  shows "filter (\<lambda>s. map_of s c = map_of t c) df = [s]"
proof -
  have "s \<in> set (filter (\<lambda>s. map_of s c = map_of t c) df)"
    using assms(3,4) by simp
  with unambiguous_match [OF assms(1,2)] show ?thesis
    by (cases "filter (\<lambda>s. map_of s c = map_of t c) df") auto
qed

lemma upsert_on_lake:
  assumes "world st path = Some target"
    and "list_all (\<lambda>r. map_of r c \<noteq> None) (df @ target)"
    and "is_identifier c"
    and "\<not> ambiguous df c target"
  shows "\<exists>st' g0 g1 g2 g3.
           upsert_delta_table (with_merge_engine lib) df path c so st = (Inr (), st')
         \<and> world st' = (world st)(path \<mapsto> replaced_world df c target)
         \<and> map call_of (new_events st st') =
             [WriteDelta df path ''merge'' (merge_predicate c) so, WhenMatchedUpdateAll g0,
              WhenNotMatchedInsertAll g1, WhenNotMatchedBySourceDelete g2, Execute g3]"
  using assms
  by (simp add: upsert_delta_table_def with_merge_engine_def prog_defs lake_write_delta_def
      lake_execute_def equality_column_merge_predicate merge_rows_all_clauses new_events_def)

lemma replaced_world_rows:
  "(\<forall>t \<in> set target. \<forall>s \<in> set df.
      map_of s c = map_of t c \<longrightarrow> s \<in> set (replaced_world df c target))
 \<and> set (replaced_world df c target) \<subseteq> set df
 \<and> (\<forall>s \<in> set df. (\<forall>t \<in> set target. map_of s c \<noteq> map_of t c) \<longrightarrow>
        s \<in> set (replaced_world df c target))
 \<and> (\<forall>t \<in> set target. (\<forall>s \<in> set df. map_of s c \<noteq> map_of t c) \<longrightarrow>
        (\<forall>r \<in> set (replaced_world df c target). map_of r c \<noteq> map_of t c))"
  by (auto simp: replaced_world_def)

subsection \<open>Reading back\<close>

lemma read_world_only:
  "world s1 = world s2 \<Longrightarrow>
   fst (read_table_in_deltalake lib p so flag s1) = fst (read_table_in_deltalake lib p so flag s2)"
  unfolding read_table_in_deltalake_def prog_defs
  by (auto split: sum.splits prod.splits)

subsection \<open>Buckets\<close>

lemma any_bucket_named_names:
  "map (\<lambda>b. map_of b ''Name'') bs = map Some ns \<Longrightarrow>
   any_bucket_named bs n = Inr (n \<in> set ns)"
  by (induction bs arbitrary: ns) auto

lemma memory_s3_service: "bucket_service memory_s3 cl (\<lambda>w. w)"
  by (auto simp: bucket_service_def memory_s3_def comp_def)

lemma count_list_absent: "n \<notin> set xs \<Longrightarrow> count_list xs n = 0"
  by (induction xs) auto

lemma count_list_present: "n \<in> set xs \<Longrightarrow> 0 < count_list xs n"
  by (induction xs) auto

lemma ensure_present:
  assumes "bucket_service sdk cl names" and "n \<in> set (names (world st))"
  shows "ensure_bucket_exists sdk cl n st =
           (Inr (), st\<lparr>logs := logs st @ [(INFO, ''Bucket '' @ quoted n @ '' already exists.'')],
                       trace := trace st @ [Returned (ListBuckets cl)]\<rparr>)"
proof -
  from assms(1) obtain resp bs where
    l: "list_buckets sdk cl (world st) = (Inr resp, world st)"
    and b: "map_of resp ''Buckets'' = Some bs"
    and m: "map (\<lambda>b. map_of b ''Name'') bs = map Some (names (world st))"
    unfolding bucket_service_def by blast
  have "any_bucket_named (get_Buckets resp) n = Inr True"
    using any_bucket_named_names [OF m, of n] assms(2) b by (simp add: get_Buckets_def)
  then show ?thesis
    using l by (simp add: ensure_bucket_exists_def prog_defs)
qed

lemma ensure_absent:
  assumes "bucket_service sdk cl names" and "n \<notin> set (names (world st))"
  shows "\<exists>w'. create_bucket sdk cl n (world st) = (Inr (), w')
            \<and> count_list (names w') n = 1
            \<and> ensure_bucket_exists sdk cl n st =
                (Inr (), st\<lparr>world := w',
                            logs := logs st @ [(INFO, ''Bucket '' @ quoted n @ '' created.'')],
                            trace := trace st @ [Returned (ListBuckets cl),
                                                 Returned (CreateBucket cl n)]\<rparr>)"
proof -
  from assms(1) obtain resp bs where
    l: "list_buckets sdk cl (world st) = (Inr resp, world st)"
    and b: "map_of resp ''Buckets'' = Some bs"
    and m: "map (\<lambda>b. map_of b ''Name'') bs = map Some (names (world st))"
    unfolding bucket_service_def by blast
  have f: "any_bucket_named (get_Buckets resp) n = Inr False"
    using any_bucket_named_names [OF m, of n] assms(2) b by (simp add: get_Buckets_def)
  from assms obtain w' where
    c: "create_bucket sdk cl n (world st) = (Inr (), w')"
    and k: "\<forall>m. count_list (names w') m
                = count_list (names (world st)) m + (if m = n then 1 else 0)"
    unfolding bucket_service_def by blast
  have "count_list (names w') n = 1"
    using k assms(2) by (simp add: count_list_absent)
  then show ?thesis
    using l f c by (simp add: ensure_bucket_exists_def prog_defs)
qed

lemma ensure_calls:
  "map call_of (new_events st (snd (ensure_bucket_exists sdk cl n st))) =
     (case list_buckets sdk cl (world st) of
        (Inl e, w1) \<Rightarrow> [ListBuckets cl]
      | (Inr resp, w1) \<Rightarrow>
          if any_bucket_named (get_Buckets resp) n = Inr False
          then [ListBuckets cl, CreateBucket cl n] else [ListBuckets cl])"
  unfolding ensure_bucket_exists_def prog_defs new_events_def
  by (auto split: sum.splits prod.splits)

lemma ensure_twice:
  assumes svc: "bucket_service sdk cl names" and le: "count_list (names (world st)) n \<le> 1"
  shows "\<exists>st1 st2.
           ensure_bucket_exists sdk cl n st = (Inr (), st1)
         \<and> ensure_bucket_exists sdk cl n st1 = (Inr (), st2)
         \<and> count_list (names (world st1)) n = 1
         \<and> world st2 = world st1
         \<and> new_events st1 st2 = [Returned (ListBuckets cl)]"
proof -
  have "\<exists>st1. ensure_bucket_exists sdk cl n st = (Inr (), st1)
            \<and> count_list (names (world st1)) n = 1"
  proof (cases "n \<in> set (names (world st))")
    case True
    then have "count_list (names (world st)) n = 1"
      using le count_list_present [of n "names (world st)"] by simp
    then show ?thesis using ensure_present [OF svc True] by simp
  next
    case False
    from ensure_absent [OF svc False] show ?thesis by auto
  qed
  then obtain st1 where
    e1: "ensure_bucket_exists sdk cl n st = (Inr (), st1)"
    and c1: "count_list (names (world st1)) n = 1" by blast
  have "n \<in> set (names (world st1))"
    using c1 count_list_absent [of n "names (world st1)"] by fastforce
  from ensure_present [OF svc this] e1 c1 show ?thesis
    by (simp add: new_events_def)
qed

section \<open>Properties\<close>

text \<open>
  C1, as amended. Against the merge engine, on an existing table whose rows and the rows of
  the change set all have the id-column, for an id-column that is a plain identifier and a
  change set in which at most one row matches any target row: the upsert succeeds with one
  merge, built from the equality predicate on the id-column and the three clauses and
  executed once, and that one execution replaces the snapshot of the target. In the new
  snapshot the incoming row that matches a target row (equal id) stands in that row's
  place, and it is the only row there, so that nothing of a matched row is left but what
  the incoming row carries; every incoming row that matches no target row is inserted; and
  every target row that no incoming row matches is deleted: no row with its id remains.
\<close>

theorem upsert_replaces_the_world:
  assumes "world st path = Some target"
    and "list_all (\<lambda>r. map_of r id_column \<noteq> None) (df @ target)"
    and "is_identifier id_column"
    and "\<not> ambiguous df id_column target"
  shows "\<exists>st' rows g0 g1 g2 g3.
           upsert_delta_table (with_merge_engine lib) df path id_column so st = (Inr (), st')
         \<and> world st' = (world st)(path \<mapsto> rows)
         \<and> map call_of (new_events st st') =
             [WriteDelta df path ''merge'' (merge_predicate id_column) so,
              WhenMatchedUpdateAll g0, WhenNotMatchedInsertAll g1,
              WhenNotMatchedBySourceDelete g2, Execute g3]
         \<and> rows = replaced_world df id_column target
         \<and> (\<forall>t \<in> set target. \<forall>s \<in> set df.
               map_of s id_column = map_of t id_column \<longrightarrow>
               s \<in> set rows
             \<and> filter (\<lambda>s. map_of s id_column = map_of t id_column) df = [s])
         \<and> set rows \<subseteq> set df
         \<and> (\<forall>s \<in> set df.
               (\<forall>t \<in> set target. map_of s id_column \<noteq> map_of t id_column) \<longrightarrow> s \<in> set rows)
         \<and> (\<forall>t \<in> set target.
               (\<forall>s \<in> set df. map_of s id_column \<noteq> map_of t id_column) \<longrightarrow>
               (\<forall>r \<in> set rows. map_of r id_column \<noteq> map_of t id_column))"
proof -
  from upsert_on_lake [OF assms, of lib so] obtain st' g0 g1 g2 g3 where
    "upsert_delta_table (with_merge_engine lib) df path id_column so st = (Inr (), st')"
    "world st' = (world st)(path \<mapsto> replaced_world df id_column target)"
    "map call_of (new_events st st') =
       [WriteDelta df path ''merge'' (merge_predicate id_column) so,
        WhenMatchedUpdateAll g0, WhenNotMatchedInsertAll g1,
        WhenNotMatchedBySourceDelete g2, Execute g3]"
    by (elim exE conjE)
  moreover have "\<forall>t \<in> set target. \<forall>s \<in> set df.
      map_of s id_column = map_of t id_column \<longrightarrow>
      s \<in> set (replaced_world df id_column target)
    \<and> filter (\<lambda>s. map_of s id_column = map_of t id_column) df = [s]"
    using replaced_world_rows [of target df id_column] the_incoming_row [OF assms(4)]
    by blast
  ultimately show ?thesis
    using replaced_world_rows [of target df id_column]
    by (intro exI conjI) (assumption | rule refl | blast)+
qed

text \<open>
  The scenario of the spec: the target holds ids 1, 2, 3; the change set holds ids 2, 3, 4
  with id 2 modified. After the upsert id 1 is gone, id 2 has the incoming values, id 3 is
  as it was and id 4 is new.
\<close>

theorem upsert_replaces_the_world_witness:
  "world (run_on [''t'' \<mapsto> scenario_target]) ''t'' = Some scenario_target
 \<and> list_all (\<lambda>r. map_of r ''id'' \<noteq> None) (scenario_changes @ scenario_target)
 \<and> is_identifier ''id''
 \<and> \<not> ambiguous scenario_changes ''id'' scenario_target
 \<and> (\<exists>st'. upsert_delta_table (with_merge_engine example_lake) scenario_changes ''t'' ''id'' None
             (run_on [''t'' \<mapsto> scenario_target]) = (Inr (), st')
          \<and> world st' ''t''
              = Some [[(''id'', 2), (''v'', 21)], [(''id'', 3), (''v'', 30)],
                      [(''id'', 4), (''v'', 40)]])"
proof -
  have h1: "world (run_on [''t'' \<mapsto> scenario_target]) ''t'' = Some scenario_target"
    by (simp add: run_on_def)
  have h2: "list_all (\<lambda>r. map_of r ''id'' \<noteq> None) (scenario_changes @ scenario_target)"
    by (simp add: scenario_changes_def scenario_target_def)
  have h3: "is_identifier ''id''"
    by (simp add: is_identifier_def identifier_char_def digit_char_def)
  have h4: "\<not> ambiguous scenario_changes ''id'' scenario_target"
    by (simp add: ambiguous_def scenario_changes_def scenario_target_def)
  have r: "replaced_world scenario_changes ''id'' scenario_target
             = [[(''id'', 2), (''v'', 21)], [(''id'', 3), (''v'', 30)], [(''id'', 4), (''v'', 40)]]"
    by (simp add: replaced_world_def scenario_changes_def scenario_target_def)
  from upsert_replaces_the_world [OF h1 h2 h3 h4, of example_lake None]
  have "\<exists>st'. upsert_delta_table (with_merge_engine example_lake) scenario_changes ''t'' ''id''
                 None (run_on [''t'' \<mapsto> scenario_target]) = (Inr (), st')
             \<and> world st' ''t'' = Some (replaced_world scenario_changes ''id'' scenario_target)"
    by (elim exE conjE) (intro exI conjI, assumption, simp)
  then obtain st' where
    e: "upsert_delta_table (with_merge_engine example_lake) scenario_changes ''t'' ''id'' None
          (run_on [''t'' \<mapsto> scenario_target]) = (Inr (), st')"
    and w: "world st' ''t'' = Some (replaced_world scenario_changes ''id'' scenario_target)"
    by (elim exE conjE)
  from w r have "world st' ''t''
      = Some [[(''id'', 2), (''v'', 21)], [(''id'', 3), (''v'', 30)], [(''id'', 4), (''v'', 40)]]"
    by simp
  with e h1 h2 h3 h4 show ?thesis
    by (intro conjI exI [of _ st']) assumption+
qed

text \<open>
  C1 as stated, for every change set and every id-column, fails. A change set with two rows
  for the id 2, which the target holds, makes the upsert raise and leaves the table as it
  was. So does an id-column that is not a plain identifier, here a name with a space, on a
  table that has that column.
\<close>

theorem upsert_refused_counterexample:
  "fst (upsert_delta_table (with_merge_engine example_lake) scenario_duplicates ''t'' ''id'' None
          (run_on [''t'' \<mapsto> scenario_target]))
     = Inl (Exn OtherException ''Multiple source rows matched one target row'')
 \<and> world (snd (upsert_delta_table (with_merge_engine example_lake) scenario_duplicates ''t''
          ''id'' None (run_on [''t'' \<mapsto> scenario_target]))) ''t''
     = Some scenario_target
 \<and> fst (upsert_delta_table (with_merge_engine example_lake) spaced_rows ''t'' ''my id'' None
          (run_on [''t'' \<mapsto> spaced_rows]))
     = Inl (Exn OtherException ''Unsupported predicate'')
 \<and> world (snd (upsert_delta_table (with_merge_engine example_lake) spaced_rows ''t''
          ''my id'' None (run_on [''t'' \<mapsto> spaced_rows]))) ''t''
     = Some spaced_rows"
  by (simp add: upsert_delta_table_def with_merge_engine_def prog_defs lake_write_delta_def
      lake_execute_def equality_column_merge_predicate is_identifier_def identifier_char_def
      digit_char_def ambiguous_def scenario_duplicates_def scenario_target_def spaced_rows_def
      run_on_def example_lake_def memory_lake_def failing_libs_def is_Exception_def)

text \<open>
  C2. An input to the write operation that is neither an Arrow table nor a Polars dataframe
  makes it raise ValueError, whatever the libraries do, and the underlying write is never
  reached: the call adds no library call to the trace and leaves the world as it was.
\<close>

theorem write_rejects_unsupported_type:
  "\<exists>st'. write_table_to_deltalake lib (OtherObject x) path storage_options partition_by mode st
          = (Inl (Exn ValueError ''Input table must be an Arrow Table or a Polars DataFrame.''), st')
        \<and> world st' = world st \<and> trace st' = trace st"
  by (simp add: write_table_to_deltalake_def write_body_def and_then_def emit_def raise_def
      logger_def is_ValueError_def)

text \<open>
  C3. For an Arrow table \<open>T\<close> and a dataframe \<open>D\<close> whose conversion is \<open>T\<close>, writing
  \<open>T\<close> and writing \<open>D\<close> to the same location from the same state, in the same mode
  (overwrite included), make one underlying write each, with the same arguments, return
  the same result and leave the same world; so every read-back gives the same result after
  the one as after the other.
\<close>

theorem write_arrow_and_polars_agree:
  assumes "to_arrow lib D = Inr T"
  shows "fst (write_table_to_deltalake lib (ArrowTable T) path so pb mode st)
           = fst (write_table_to_deltalake lib (PolarsDataFrame D) path so pb mode st)
       \<and> world (snd (write_table_to_deltalake lib (ArrowTable T) path so pb mode st))
           = world (snd (write_table_to_deltalake lib (PolarsDataFrame D) path so pb mode st))
       \<and> filter is_WriteDeltalake (map call_of (new_events st
            (snd (write_table_to_deltalake lib (ArrowTable T) path so pb mode st))))
           = [WriteDeltalake path T mode so pb]
       \<and> filter is_WriteDeltalake (map call_of (new_events st
            (snd (write_table_to_deltalake lib (PolarsDataFrame D) path so pb mode st))))
           = [WriteDeltalake path T mode so pb]
       \<and> (\<forall>p so' flag.
            fst (read_table_in_deltalake lib p so' flag
                   (snd (write_table_to_deltalake lib (ArrowTable T) path so pb mode st)))
          = fst (read_table_in_deltalake lib p so' flag
                   (snd (write_table_to_deltalake lib (PolarsDataFrame D) path so pb mode st))))"
proof (intro conjI allI)
  show "fst (write_table_to_deltalake lib (ArrowTable T) path so pb mode st)
          = fst (write_table_to_deltalake lib (PolarsDataFrame D) path so pb mode st)"
    using assms unfolding write_table_to_deltalake_def write_body_def prog_defs
    by (auto split: sum.splits prod.splits)
next
  show "world (snd (write_table_to_deltalake lib (ArrowTable T) path so pb mode st))
          = world (snd (write_table_to_deltalake lib (PolarsDataFrame D) path so pb mode st))"
    using assms unfolding write_table_to_deltalake_def write_body_def prog_defs
    by (auto split: sum.splits prod.splits)
next
  show "filter is_WriteDeltalake (map call_of (new_events st
          (snd (write_table_to_deltalake lib (ArrowTable T) path so pb mode st))))
          = [WriteDeltalake path T mode so pb]"
    unfolding write_table_to_deltalake_def write_body_def prog_defs new_events_def
    by (auto split: sum.splits prod.splits)
next
  show "filter is_WriteDeltalake (map call_of (new_events st
          (snd (write_table_to_deltalake lib (PolarsDataFrame D) path so pb mode st))))
          = [WriteDeltalake path T mode so pb]"
    using assms unfolding write_table_to_deltalake_def write_body_def prog_defs new_events_def
    by (auto split: sum.splits prod.splits)
next
  fix p so' flag
  show "fst (read_table_in_deltalake lib p so' flag
               (snd (write_table_to_deltalake lib (ArrowTable T) path so pb mode st)))
      = fst (read_table_in_deltalake lib p so' flag
               (snd (write_table_to_deltalake lib (PolarsDataFrame D) path so pb mode st)))"
    by (rule read_world_only)
      (use assms in \<open>auto simp: write_table_to_deltalake_def write_body_def prog_defs
         split: sum.splits prod.splits\<close>)
qed

text \<open>
  On the store in memory: a one-row dataframe and its Arrow table, written in overwrite
  mode to a fresh location; both writes succeed and the dataframe's read-back is the table.
\<close>

theorem write_arrow_and_polars_agree_witness:
  "to_arrow example_lake scenario_changes = Inr scenario_changes
 \<and> fst (write_table_to_deltalake example_lake
           (PolarsDataFrame scenario_changes :: (int row list, int row list, unit) pyobject)
           ''t'' None None ''overwrite'' (run_on Map.empty)) = Inr ()
 \<and> fst (read_table_in_deltalake example_lake ''t'' None False
           (snd (write_table_to_deltalake example_lake
                   (PolarsDataFrame scenario_changes :: (int row list, int row list, unit) pyobject)
                   ''t'' None None ''overwrite'' (run_on Map.empty))))
     = Inr (AsArrow scenario_changes)"
proof -
  let ?a = "write_table_to_deltalake example_lake
              (ArrowTable scenario_changes :: (int row list, int row list, unit) pyobject)
              ''t'' None None ''overwrite'' (run_on Map.empty)"
  let ?d = "write_table_to_deltalake example_lake
              (PolarsDataFrame scenario_changes :: (int row list, int row list, unit) pyobject)
              ''t'' None None ''overwrite'' (run_on Map.empty)"
  have h: "to_arrow example_lake scenario_changes = Inr scenario_changes"
    by (simp add: example_lake_def memory_lake_def failing_libs_def)
  have a1: "fst ?a = Inr ()"
    by (simp add: write_table_to_deltalake_def write_body_def prog_defs example_lake_def
        memory_lake_def failing_libs_def run_on_def)
  have a2: "fst (read_table_in_deltalake example_lake ''t'' None False (snd ?a))
              = Inr (AsArrow scenario_changes)"
    by (simp add: write_table_to_deltalake_def write_body_def read_table_in_deltalake_def
        prog_defs example_lake_def memory_lake_def failing_libs_def run_on_def)
  have "fst ?a = fst ?d
      \<and> world (snd ?a) = world (snd ?d)
      \<and> filter is_WriteDeltalake (map call_of (new_events (run_on Map.empty) (snd ?a)))
          = [WriteDeltalake ''t'' scenario_changes ''overwrite'' None None]
      \<and> filter is_WriteDeltalake (map call_of (new_events (run_on Map.empty) (snd ?d)))
          = [WriteDeltalake ''t'' scenario_changes ''overwrite'' None None]
      \<and> (\<forall>p so' flag.
            fst (read_table_in_deltalake example_lake p so' flag (snd ?a))
          = fst (read_table_in_deltalake example_lake p so' flag (snd ?d)))"
    by (rule write_arrow_and_polars_agree [OF h])
  then have "fst ?d = fst ?a"
    and "fst (read_table_in_deltalake example_lake ''t'' None False (snd ?d))
         = fst (read_table_in_deltalake example_lake ''t'' None False (snd ?a))"
    by simp_all
  with h a1 a2 show ?thesis by simp
qed

text \<open>
  C4, as amended. In every operation of the two facades, an exception that a library call
  raises ends the operation and is its result, unchanged: none is swallowed or turned into
  a value. It is logged at error level exactly once, with the text of the operation's
  handler, when it is an instance of \<^verbatim>\<open>Exception\<close>; in connect, only when it is a
  \<^verbatim>\<open>BotoCoreError\<close> or a \<^verbatim>\<open>ClientError\<close>. Any other exception is re-raised
  without a log record.
\<close>

theorem failures_logged_and_reraised:
  "logged_and_reraised is_Exception (check_failed_msg path) st
     (check_if_deltatable lib path so st)
 \<and> logged_and_reraised is_Exception
     (\<lambda>e. if is_ValueError e then write_invalid_msg e else write_failed_msg path e) st
     (write_table_to_deltalake lib table path so pb mode st)
 \<and> logged_and_reraised is_Exception (read_failed_msg path) st
     (read_table_in_deltalake lib path so to_polars st)
 \<and> logged_and_reraised is_Exception metadata_failed_msg st
     (read_deltalake_metadata lib path so st)
 \<and> logged_and_reraised is_Exception (upsert_failed_msg path id_column) st
     (upsert_delta_table lib df path id_column so st)
 \<and> logged_and_reraised is_sdk_error connect_failed_msg st2
     (connect_s3 sdk endpoint_url access_key secret_key region_name st2)
 \<and> logged_and_reraised is_Exception bucket_failed_msg st2
     (ensure_bucket_exists sdk cl bucket_name st2)"
  by (intro conjI check_logged_and_reraised write_logged_and_reraised read_logged_and_reraised
      metadata_logged_and_reraised upsert_logged_and_reraised connect_logged_and_reraised
      ensure_logged_and_reraised)

text \<open>
  With libraries in which every call raises: each of the seven operations returns the
  exception its first library call raised and logs it once at error level.
\<close>

theorem failures_logged_and_reraised_witness:
  "fst (check_if_deltatable broken_lake ''t'' None (run_on Map.empty)) = Inl unavailable
 \<and> errors_logged (logs (snd (check_if_deltatable broken_lake ''t'' None (run_on Map.empty))))
     = [check_failed_msg ''t'' unavailable]
 \<and> fst (write_table_to_deltalake broken_lake
          (ArrowTable scenario_changes :: (int row list, int row list, unit) pyobject)
          ''t'' None None ''overwrite'' (run_on Map.empty)) = Inl unavailable
 \<and> errors_logged (logs (snd (write_table_to_deltalake broken_lake
          (ArrowTable scenario_changes :: (int row list, int row list, unit) pyobject)
          ''t'' None None ''overwrite'' (run_on Map.empty))))
     = [write_failed_msg ''t'' unavailable]
 \<and> fst (read_table_in_deltalake broken_lake ''t'' None True (run_on Map.empty)) = Inl unavailable
 \<and> errors_logged (logs (snd (read_table_in_deltalake broken_lake ''t'' None True
          (run_on Map.empty))))
     = [read_failed_msg ''t'' unavailable]
 \<and> fst (read_deltalake_metadata broken_lake ''t'' None (run_on Map.empty)) = Inl unavailable
 \<and> errors_logged (logs (snd (read_deltalake_metadata broken_lake ''t'' None (run_on Map.empty))))
     = [metadata_failed_msg unavailable]
 \<and> fst (upsert_delta_table broken_lake scenario_changes ''t'' ''id'' None (run_on Map.empty))
     = Inl unavailable
 \<and> errors_logged (logs (snd (upsert_delta_table broken_lake scenario_changes ''t'' ''id'' None
          (run_on Map.empty))))
     = [upsert_failed_msg ''t'' ''id'' unavailable]
 \<and> fst (connect_s3 (broken_s3 access_denied) ''http://minio:9000'' ''key'' ''secret''
          default_region_name (run_on [])) = Inl access_denied
 \<and> errors_logged (logs (snd (connect_s3 (broken_s3 access_denied) ''http://minio:9000'' ''key''
          ''secret'' default_region_name (run_on []))))
     = [connect_failed_msg access_denied]
 \<and> fst (ensure_bucket_exists (broken_s3 access_denied) () ''lake'' (run_on []))
     = Inl access_denied
 \<and> errors_logged (logs (snd (ensure_bucket_exists (broken_s3 access_denied) () ''lake''
          (run_on []))))
     = [bucket_failed_msg access_denied]"
proof -
  have "logged_and_reraised is_Exception (check_failed_msg ''t'') (run_on Map.empty)
          (check_if_deltatable broken_lake ''t'' None (run_on Map.empty))
      \<and> logged_and_reraised is_Exception
          (\<lambda>e. if is_ValueError e then write_invalid_msg e else write_failed_msg ''t'' e)
          (run_on Map.empty)
          (write_table_to_deltalake broken_lake
             (ArrowTable scenario_changes :: (int row list, int row list, unit) pyobject)
             ''t'' None None ''overwrite'' (run_on Map.empty))
      \<and> logged_and_reraised is_Exception (read_failed_msg ''t'') (run_on Map.empty)
          (read_table_in_deltalake broken_lake ''t'' None True (run_on Map.empty))
      \<and> logged_and_reraised is_Exception metadata_failed_msg (run_on Map.empty)
          (read_deltalake_metadata broken_lake ''t'' None (run_on Map.empty))
      \<and> logged_and_reraised is_Exception (upsert_failed_msg ''t'' ''id'') (run_on Map.empty)
          (upsert_delta_table broken_lake scenario_changes ''t'' ''id'' None (run_on Map.empty))
      \<and> logged_and_reraised is_sdk_error connect_failed_msg (run_on [])
          (connect_s3 (broken_s3 access_denied) ''http://minio:9000'' ''key'' ''secret''
             default_region_name (run_on []))
      \<and> logged_and_reraised is_Exception bucket_failed_msg (run_on [])
          (ensure_bucket_exists (broken_s3 access_denied) () ''lake'' (run_on []))"
    by (rule failures_logged_and_reraised)
  then show ?thesis
    by (simp add: logged_and_reraised_def check_if_deltatable_def write_table_to_deltalake_def
        write_body_def read_table_in_deltalake_def read_deltalake_metadata_def
        upsert_delta_table_def connect_s3_def ensure_bucket_exists_def prog_defs
        broken_lake_def failing_libs_def broken_s3_def failing_boto3_def run_on_def
        errors_logged_def unavailable_def access_denied_def is_Exception_def is_ValueError_def
        is_sdk_error_def)
qed

text \<open>
  C4 as stated fails in connect: the SDK rejects a malformed endpoint with a
  \<^verbatim>\<open>ValueError\<close>, which the handler of connect does not catch. The exception reaches
  the caller with no error record in the log.
\<close>

theorem connect_unlogged_failure_counterexample:
  "fst (connect_s3 (broken_s3 invalid_endpoint) ''nowhere'' ''key'' ''secret''
          default_region_name (run_on [])) = Inl invalid_endpoint
 \<and> trace (snd (connect_s3 (broken_s3 invalid_endpoint) ''nowhere'' ''key'' ''secret''
          default_region_name (run_on [])))
     = [Raised (Boto3Client ''s3'' ''key'' ''secret'' ''nowhere'' default_region_name)
          invalid_endpoint]
 \<and> errors_logged (logs (snd (connect_s3 (broken_s3 invalid_endpoint) ''nowhere'' ''key''
          ''secret'' default_region_name (run_on [])))) = []
 \<and> \<not> logged_and_reraised (\<lambda>e. True) connect_failed_msg (run_on [])
        (connect_s3 (broken_s3 invalid_endpoint) ''nowhere'' ''key'' ''secret''
           default_region_name (run_on []))"
  by (simp add: logged_and_reraised_def connect_s3_def prog_defs broken_s3_def failing_boto3_def
      run_on_def errors_logged_def invalid_endpoint_def is_sdk_error_def)


text \<open>
  C6. The read operation opens the table at the location with no version given, which is
  the latest version, and loads it as an Arrow table. When the library delivers both: with
  the flag off the read returns that Arrow table, and no conversion is called; with the flag
  on the read calls the conversion to a dataframe once, after the load, and returns its
  result.
\<close>

theorem read_latest_snapshot:
  assumes "DeltaTable lib path None so (world st) = (Inr h, w1)"
    and "to_pyarrow_table lib h w1 = (Inr t, w2)"
  shows "(\<not> to_polars \<longrightarrow>
            (\<exists>st'. read_table_in_deltalake lib path so to_polars st = (Inr (AsArrow t), st')
                  \<and> world st' = w2
                  \<and> new_events st st' =
                      [Returned (OpenDeltaTable path None so), Returned (ToPyarrowTable h)]))
       \<and> (to_polars \<longrightarrow>
            (\<forall>d. from_arrow lib t = Inr d \<longrightarrow>
               (\<exists>st'. read_table_in_deltalake lib path so to_polars st = (Inr (AsPolars d), st')
                     \<and> world st' = w2
                     \<and> new_events st st' =
                         [Returned (OpenDeltaTable path None so), Returned (ToPyarrowTable h),
                          Returned (FromArrow t)])))"
  using assms
  by (simp add: read_table_in_deltalake_def prog_defs new_events_def)

theorem read_latest_snapshot_witness:
  "DeltaTable example_lake ''t'' None None (world (run_on [''t'' \<mapsto> scenario_target]))
     = (Inr scenario_target, [''t'' \<mapsto> scenario_target])
 \<and> to_pyarrow_table example_lake scenario_target [''t'' \<mapsto> scenario_target]
     = (Inr scenario_target, [''t'' \<mapsto> scenario_target])
 \<and> from_arrow example_lake scenario_target = Inr scenario_target
 \<and> fst (read_table_in_deltalake example_lake ''t'' None False
          (run_on [''t'' \<mapsto> scenario_target])) = Inr (AsArrow scenario_target)
 \<and> fst (read_table_in_deltalake example_lake ''t'' None True
          (run_on [''t'' \<mapsto> scenario_target])) = Inr (AsPolars scenario_target)"
proof -
  have h1: "DeltaTable example_lake ''t'' None None (world (run_on [''t'' \<mapsto> scenario_target]))
              = (Inr scenario_target, [''t'' \<mapsto> scenario_target])"
    by (simp add: example_lake_def memory_lake_def failing_libs_def run_on_def)
  have h2: "to_pyarrow_table example_lake scenario_target [''t'' \<mapsto> scenario_target]
              = (Inr scenario_target, [''t'' \<mapsto> scenario_target])"
    by (simp add: example_lake_def memory_lake_def failing_libs_def)
  have h3: "from_arrow example_lake scenario_target = Inr scenario_target"
    by (simp add: example_lake_def memory_lake_def failing_libs_def)
  from read_latest_snapshot [OF h1 h2, where to_polars = False]
       read_latest_snapshot [OF h1 h2, where to_polars = True] h1 h2 h3
  show ?thesis by auto
qed

text \<open>
  C7. Whenever the metadata read returns, it returns a dictionary with exactly the keys
  \<^verbatim>\<open>metadata\<close>, \<^verbatim>\<open>schema\<close> and \<^verbatim>\<open>version\<close>, holding the metadata object of the
  table opened at the location, its schema parsed from the schema's JSON text, and its
  version, an integer. And it does return, with that dictionary, whenever the table opens
  and the library delivers the three.
\<close>

theorem metadata_shape:
  "(\<forall>d. fst (read_deltalake_metadata lib path so st) = Inr d \<longrightarrow>
        dom (map_of d) = {''metadata'', ''schema'', ''version''}
      \<and> (\<exists>h w1 m js j v.
            DeltaTable lib path None so (world st) = (Inr h, w1) \<and> metadata lib h = Inr m
          \<and> schema_to_json lib h = Inr js \<and> json_loads lib js = Inr j \<and> version lib h = Inr v
          \<and> map_of d = [''metadata'' \<mapsto> MetadataObject m, ''schema'' \<mapsto> SchemaStructure j,
                        ''version'' \<mapsto> VersionNumber v]))
 \<and> (\<forall>h w1 m js j v.
        DeltaTable lib path None so (world st) = (Inr h, w1) \<and> metadata lib h = Inr m
      \<and> schema_to_json lib h = Inr js \<and> json_loads lib js = Inr j \<and> version lib h = Inr v \<longrightarrow>
        (\<exists>d. fst (read_deltalake_metadata lib path so st) = Inr d
            \<and> map_of d = [''metadata'' \<mapsto> MetadataObject m, ''schema'' \<mapsto> SchemaStructure j,
                          ''version'' \<mapsto> VersionNumber v]))"
  unfolding read_deltalake_metadata_def prog_defs
  by (auto split: sum.splits prod.splits if_splits)

theorem metadata_shape_witness:
  "DeltaTable described_lake ''t'' None None (world (run_on [''t'' \<mapsto> scenario_target]))
     = (Inr scenario_target, [''t'' \<mapsto> scenario_target])
 \<and> metadata described_lake scenario_target = Inr ''orders''
 \<and> schema_to_json described_lake scenario_target = Inr ''{}''
 \<and> json_loads described_lake ''{}'' = Inr (JObj [])
 \<and> version described_lake scenario_target = Inr 0
 \<and> (\<exists>d. fst (read_deltalake_metadata described_lake ''t'' None
               (run_on [''t'' \<mapsto> scenario_target])) = Inr d
        \<and> dom (map_of d) = {''metadata'', ''schema'', ''version''}
        \<and> map_of d = [''metadata'' \<mapsto> MetadataObject ''orders'',
                      ''schema'' \<mapsto> SchemaStructure (JObj []),
                      ''version'' \<mapsto> VersionNumber 0])"
proof -
  have h: "DeltaTable described_lake ''t'' None None (world (run_on [''t'' \<mapsto> scenario_target]))
             = (Inr scenario_target, [''t'' \<mapsto> scenario_target])
         \<and> metadata described_lake scenario_target = Inr ''orders''
         \<and> schema_to_json described_lake scenario_target = Inr ''{}''
         \<and> json_loads described_lake ''{}'' = Inr (JObj [])
         \<and> version described_lake scenario_target = Inr 0"
    by (simp add: described_lake_def example_lake_def memory_lake_def failing_libs_def
        run_on_def)
  note m = metadata_shape [of described_lake "''t''" None "run_on [''t'' \<mapsto> scenario_target]"]
  from m [THEN conjunct2, rule_format, OF h] obtain d where
    d: "fst (read_deltalake_metadata described_lake ''t'' None
               (run_on [''t'' \<mapsto> scenario_target])) = Inr d"
    and k: "map_of d = [''metadata'' \<mapsto> MetadataObject ''orders'',
                        ''schema'' \<mapsto> SchemaStructure (JObj []),
                        ''version'' \<mapsto> VersionNumber 0]"
    by (elim exE conjE)
  from m [THEN conjunct1, rule_format, OF d]
  have "dom (map_of d) = {''metadata'', ''schema'', ''version''}"
    by (rule conjunct1)
  with h d k show ?thesis
    by (intro conjI exI [of _ d]) (elim conjE, assumption)+
qed

text \<open>
  C8. Ensure-bucket-exists lists the buckets first and calls the creation of the named
  bucket exactly when the listing succeeds and no listed bucket has that name. On a service
  whose listing reports its buckets and which creates a bucket it does not hold, and which
  holds the name at most once: two calls in succession both succeed, the first leaves
  exactly one bucket of that name, and the second only lists: it creates nothing and
  leaves the service as it was.
\<close>

theorem ensure_bucket_exists_idempotent:
  "map call_of (new_events st (snd (ensure_bucket_exists sdk cl n st))) =
     (case list_buckets sdk cl (world st) of
        (Inl e, w1) \<Rightarrow> [ListBuckets cl]
      | (Inr resp, w1) \<Rightarrow>
          if any_bucket_named (get_Buckets resp) n = Inr False
          then [ListBuckets cl, CreateBucket cl n] else [ListBuckets cl])
 \<and> (bucket_service sdk cl names \<and> count_list (names (world st)) n \<le> 1 \<longrightarrow>
      (\<exists>st1 st2.
         ensure_bucket_exists sdk cl n st = (Inr (), st1)
       \<and> ensure_bucket_exists sdk cl n st1 = (Inr (), st2)
       \<and> count_list (names (world st1)) n = 1
       \<and> world st2 = world st1
       \<and> new_events st1 st2 = [Returned (ListBuckets cl)]))"
  using ensure_calls [of st sdk cl n] ensure_twice [of sdk cl names st n]
  by (intro conjI impI) (assumption, elim conjE, assumption)

text \<open>
  On the service in memory that holds one other bucket: the first call creates the bucket,
  the second finds it, and the service holds it once.
\<close>

theorem ensure_bucket_exists_idempotent_witness:
  "bucket_service memory_s3 () (\<lambda>w. w)
 \<and> count_list (world (run_on [''raw''])) ''lake'' \<le> 1
 \<and> (\<exists>st1 st2.
       ensure_bucket_exists memory_s3 () ''lake'' (run_on [''raw'']) = (Inr (), st1)
     \<and> ensure_bucket_exists memory_s3 () ''lake'' st1 = (Inr (), st2)
     \<and> world st1 = [''raw'', ''lake'']
     \<and> world st2 = [''raw'', ''lake''])"
proof -
  have s: "bucket_service memory_s3 () (\<lambda>w. w)"
    by (rule memory_s3_service)
  have c: "count_list (world (run_on [''raw''])) ''lake'' \<le> 1"
    by (simp add: run_on_def)
  have w: "world (snd (ensure_bucket_exists memory_s3 () ''lake'' (run_on [''raw''])))
             = [''raw'', ''lake'']"
    by (simp add: ensure_bucket_exists_def prog_defs memory_s3_def get_Buckets_def run_on_def)
  from ensure_bucket_exists_idempotent
         [of "run_on [''raw'']" memory_s3 "()" "''lake''" "\<lambda>w. w", THEN conjunct2, rule_format,
          OF conjI [OF s c]]
  obtain st1 st2 where
    e1: "ensure_bucket_exists memory_s3 () ''lake'' (run_on [''raw'']) = (Inr (), st1)"
    and e2: "ensure_bucket_exists memory_s3 () ''lake'' st1 = (Inr (), st2)"
    and w2: "world st2 = world st1"
    by (elim exE conjE)
  from w e1 have w1: "world st1 = [''raw'', ''lake'']" by simp
  with w2 have "world st2 = [''raw'', ''lake'']" by simp
  with s c e1 e2 w1 show ?thesis
    by (intro conjI exI [of _ st1] exI [of _ st2]) assumption+
qed

text \<open>
  C9, as amended. Connect makes one SDK call and no other: the construction of an S3 client
  with the given access key, secret key, endpoint and region. It calls nothing on the
  client, so it verifies neither reachability nor credentials. When the construction
  returns a client, connect returns that client. When the construction raises, connect
  raises the same exception at once; it logs it, once and at error level, exactly when
  it is a \<^verbatim>\<open>BotoCoreError\<close> or a \<^verbatim>\<open>ClientError\<close>, and any other exception of the
  construction is re-raised with no error record.
\<close>

theorem connect_constructs_client:
  "(\<exists>ev. trace (snd (connect_s3 sdk endpoint_url access_key secret_key region_name st))
            = trace st @ [ev]
        \<and> call_of ev = Boto3Client ''s3'' access_key secret_key endpoint_url region_name)
 \<and> (\<forall>cl w'. client sdk ''s3'' access_key secret_key endpoint_url region_name (world st) = (Inr cl, w')
        \<longrightarrow> fst (connect_s3 sdk endpoint_url access_key secret_key region_name st) = Inr cl)
 \<and> (\<forall>e w'. client sdk ''s3'' access_key secret_key endpoint_url region_name (world st) = (Inl e, w')
        \<longrightarrow> fst (connect_s3 sdk endpoint_url access_key secret_key region_name st) = Inl e
          \<and> errors_logged (new_logs st
               (snd (connect_s3 sdk endpoint_url access_key secret_key region_name st)))
              = (if is_sdk_error e then [connect_failed_msg e] else []))"
  unfolding connect_s3_def prog_defs new_logs_def errors_logged_def
  by (auto split: sum.splits prod.splits)

theorem connect_constructs_client_witness:
  "client memory_s3 ''s3'' ''key'' ''secret'' ''http://minio:9000'' default_region_name
     (world (run_on [])) = (Inr (), [])
 \<and> fst (connect_s3 memory_s3 ''http://minio:9000'' ''key'' ''secret'' default_region_name
          (run_on [])) = Inr ()
 \<and> client (broken_s3 access_denied) ''s3'' ''key'' ''secret'' ''http://minio:9000''
     default_region_name (world (run_on [])) = (Inl access_denied, [])
 \<and> is_sdk_error access_denied
 \<and> fst (connect_s3 (broken_s3 access_denied) ''http://minio:9000'' ''key'' ''secret''
          default_region_name (run_on [])) = Inl access_denied
 \<and> errors_logged (new_logs (run_on [])
      (snd (connect_s3 (broken_s3 access_denied) ''http://minio:9000'' ''key'' ''secret''
              default_region_name (run_on []))))
     = [connect_failed_msg access_denied]"
proof -
  have a: "client memory_s3 ''s3'' ''key'' ''secret'' ''http://minio:9000'' default_region_name
             (world (run_on [])) = (Inr (), [])"
    by (simp add: memory_s3_def run_on_def)
  have b: "client (broken_s3 access_denied) ''s3'' ''key'' ''secret'' ''http://minio:9000''
             default_region_name (world (run_on [])) = (Inl access_denied, [])"
    by (simp add: broken_s3_def failing_boto3_def run_on_def)
  have s: "is_sdk_error access_denied"
    by (simp add: is_sdk_error_def access_denied_def)
  note ok = connect_constructs_client
              [of memory_s3 "''http://minio:9000''" "''key''" "''secret''" default_region_name
                  "run_on []"]
  note ko = connect_constructs_client
              [of "broken_s3 access_denied" "''http://minio:9000''" "''key''" "''secret''"
                  default_region_name "run_on []"]
  from ok [THEN conjunct2, THEN conjunct1, rule_format, OF a]
  have r1: "fst (connect_s3 memory_s3 ''http://minio:9000'' ''key'' ''secret''
                   default_region_name (run_on [])) = Inr ()" .
  from ko [THEN conjunct2, THEN conjunct2, rule_format, OF b]
  have r2: "fst (connect_s3 (broken_s3 access_denied) ''http://minio:9000'' ''key'' ''secret''
                   default_region_name (run_on [])) = Inl access_denied
          \<and> errors_logged (new_logs (run_on [])
               (snd (connect_s3 (broken_s3 access_denied) ''http://minio:9000'' ''key''
                       ''secret'' default_region_name (run_on []))))
             = (if is_sdk_error access_denied then [connect_failed_msg access_denied] else [])" .
  with a b s r1 show ?thesis by simp
qed

text \<open>
  C9 as stated fails: the construction rejects a malformed endpoint with a
  \<^verbatim>\<open>ValueError\<close>, an error the SDK raises while it constructs the client. Connect
  re-raises it and logs no error.
\<close>

theorem connect_construction_error_counterexample:
  "client (broken_s3 invalid_endpoint) ''s3'' ''key'' ''secret'' ''nowhere'' default_region_name
     (world (run_on [])) = (Inl invalid_endpoint, [])
 \<and> fst (connect_s3 (broken_s3 invalid_endpoint) ''nowhere'' ''key'' ''secret''
          default_region_name (run_on [])) = Inl invalid_endpoint
 \<and> errors_logged (new_logs (run_on [])
      (snd (connect_s3 (broken_s3 invalid_endpoint) ''nowhere'' ''key'' ''secret''
              default_region_name (run_on [])))) = []"
  by (simp add: connect_s3_def prog_defs broken_s3_def failing_boto3_def run_on_def
      errors_logged_def new_logs_def invalid_endpoint_def is_sdk_error_def)



end
